theory Spec2Isabelle
  imports Main "HOL-Library.Word" "HOL-Library.Sublist"
begin

unbundle bit_operations_syntax

section \<open>The UIO interrupt tester (main.c) as a trace-producing program\<close>

text \<open>
  The program talks to its surroundings only through library and system calls and through
  volatile loads and stores in the mapped register window. The model makes every such
  action an event and returns, for a run, the list of events in program order together
  with the exit status. What the surroundings answer (the results of \<open>open\<close>, \<open>mmap\<close>,
  \<open>write\<close>, \<open>read\<close>, \<open>fork\<close>, \<open>getopt\<close>, the values the registers deliver) is an input of
  the model.

  \<open>unsigned long\<close>, \<open>size_t\<close>, \<open>ssize_t\<close> and pointers have one width on the Linux targets
  the program is built for; that width is the type parameter \<open>'w\<close> (32 on the Zynq ARM core,
  64 on an LP64 target). A \<open>ssize_t\<close> result is kept as its two's complement bit pattern, so
  that storing it in the \<open>size_t\<close> variable \<open>nb\<close> is the identity on the word and
  \<open>sint\<close> reads the signed value the system call returned.
\<close>

subsection \<open>Events\<close>

datatype 'v arg =
    File_macro                \<comment> \<open>the build's \<open>__FILE__\<close>\<close>
  | Int_arg int
  | Str_arg string
  | ULong_arg 'v

datatype 'v event =
    Signal_call int            \<comment> \<open>\<open>signal(signo, uio_terminate)\<close>\<close>
  | Fork_call
  | Err_call int               \<comment> \<open>\<open>err(status, NULL)\<close>\<close>
  | Open_call string           \<comment> \<open>\<open>open(name, O_RDWR | O_SYNC)\<close>\<close>
  | Mmap_call 'v int           \<comment> \<open>\<open>mmap(NULL, len, PROT_READ | PROT_WRITE, MAP_SHARED, fd, 0)\<close>\<close>
  | Munmap_call 'v 'v          \<comment> \<open>\<open>munmap(addr, len)\<close>\<close>
  | Close_call int
  | Write_call int 'v nat      \<comment> \<open>\<open>write(fd, &en, count)\<close>, with the value of \<open>en\<close>\<close>
  | Read_call int nat          \<comment> \<open>\<open>read(fd, &npending, count)\<close>\<close>
  | Usleep_call nat
  | Reg_read 'v 'v 'v          \<comment> \<open>base, offset, value loaded\<close>
  | Reg_write 'v 'v 'v         \<comment> \<open>base, offset, value stored\<close>
  | Stdout_printf string "'v arg list"
  | Stderr_printf string "'v arg list"

subsection \<open>Constants and macros\<close>

definition EXIT_SUCCESS :: int where "EXIT_SUCCESS = 0"
definition EXIT_FAILURE :: int where "EXIT_FAILURE = 1"
definition SIGINT :: int where "SIGINT = 2"

definition MAP_FAILED :: "'w::len word" where "MAP_FAILED = - 1"

definition AXI_GPIO_ADDR_SIZE :: "'w::len word" where "AXI_GPIO_ADDR_SIZE = 0x00010000"

definition AXI_GPIO_DATA_OFFSET :: "'w::len word" where "AXI_GPIO_DATA_OFFSET = 0x00000000"
definition AXI_GPIO_TRI_OFFSET :: "'w::len word" where "AXI_GPIO_TRI_OFFSET = 0x00000004"
definition AXI_GPIO_GIER_OFFSET :: "'w::len word" where "AXI_GPIO_GIER_OFFSET = 0x0000011C"
definition AXI_GPIO_IPISR_OFFSET :: "'w::len word" where "AXI_GPIO_IPISR_OFFSET = 0x00000120"
definition AXI_GPIO_IPIER_OFFSET :: "'w::len word" where "AXI_GPIO_IPIER_OFFSET = 0x00000128"

text \<open>
  \<open>AXI_GPIO_GIER_ENABLE\<close> is \<open>(1 << 31)\<close> on \<open>int\<close>: the 32-bit pattern with only the top
  bit set, read as a signed value. Passing it to the \<open>unsigned long\<close> parameter of
  \<open>write_reg\<close> converts it modulo the width of \<open>unsigned long\<close>.
\<close>

definition AXI_GPIO_GIER_ENABLE :: int where
  "AXI_GPIO_GIER_ENABLE = sint (push_bit 31 (1 :: 32 word))"

text \<open>
  \<open>sizeof\<close> of an \<open>unsigned long\<close> object, in bytes: \<open>sizeof(en)\<close>, \<open>sizeof(ier)\<close> and
  \<open>sizeof(unsigned long)\<close> in the source are all this number.
\<close>

definition sizeof_ulong :: "'w::len itself \<Rightarrow> nat" where
  "sizeof_ulong t = LENGTH('w) div 8"

definition print_error :: "nat \<Rightarrow> string \<Rightarrow> string \<Rightarrow> 'w word arg list \<Rightarrow> 'w word event" where
  "print_error line func fmt args =
     Stderr_printf (''ERROR: %s [%d]: %s(): '' @ fmt @ ''\<newline>'')
       ([File_macro, Int_arg (int line), Str_arg func] @ args)"

text \<open>\<open>DEBUG_PRINT\<close> prints when the build defines \<open>DEBUG\<close> and is empty otherwise.\<close>

definition DEBUG_PRINT :: "bool \<Rightarrow> nat \<Rightarrow> string \<Rightarrow> string \<Rightarrow> 'w word arg list \<Rightarrow> 'w word event list" where
  "DEBUG_PRINT dbg line func fmt args =
     (if dbg then
        [Stderr_printf (''DEBUG: %s [%d]: %s(): '' @ fmt @ ''\<newline>'')
           ([File_macro, Int_arg (int line), Str_arg func] @ args)]
      else [])"

subsection \<open>usage, read\_reg, write\_reg, uio\_terminate\<close>

definition usage :: "'w word event" where
  "usage = Stdout_printf ''Usage: uiotest -d uio_num [-D]\<newline>'' []"

text \<open>
  A volatile load delivers what the device holds at that moment, so the loaded value is
  an input; the event records it.
\<close>

definition read_reg :: "'w word \<Rightarrow> 'w word \<Rightarrow> 'w word \<Rightarrow> 'w word event" where
  "read_reg base offset loaded = Reg_read base offset loaded"

definition write_reg :: "'w word \<Rightarrow> 'w word \<Rightarrow> 'w word \<Rightarrow> 'w word event" where
  "write_reg base offset val = Reg_write base offset val"


subsection \<open>uio\_run\<close>

text \<open>
  What one pass of the \<open>while (1)\<close> loop gets from outside: the results of \<open>write\<close> and
  \<open>read\<close> on the device file, the contents of \<open>npending\<close> when \<open>read\<close> has returned, and
  the values the status and data registers deliver if they are loaded.
\<close>

record 'v iter_io =
  wr_ret :: 'v
  rd_ret :: 'v
  npending_val :: 'v
  isr_val :: 'v
  data_val :: 'v

record 'v uio_env =
  open_ret :: int
  open_errstr :: string       \<comment> \<open>\<open>strerror(errno)\<close> after \<open>open\<close>\<close>
  mmap_ret :: 'v
  mmap_errstr :: string       \<comment> \<open>\<open>strerror(errno)\<close> after \<open>mmap\<close>\<close>
  tri_val :: 'v
  ier_val :: 'v
  iters :: "'v iter_io list"

text \<open>
  The \<open>while (1)\<close> loop of \<open>uio_run\<close> (lines 196 to 223). It has no \<open>break\<close>: it ends only
  by the \<open>return\<close> in the unmask branch. The list of passes is the fuel; when it is used
  up the loop has not returned and the status is \<open>None\<close>. The statements after the loop
  (lines 225 to 228) are never reached. The value of \<open>npending\<close> tested at line 210 is
  whatever the variable holds once \<open>read\<close> has returned, whether \<open>read\<close> filled it or not.
\<close>

fun uio_loop :: "bool \<Rightarrow> int \<Rightarrow> 'w::len word \<Rightarrow> 'w word iter_io list \<Rightarrow> 'w word event list \<times> int option" where
  "uio_loop dbg fd iomem [] = ([], None)"
| "uio_loop dbg fd iomem (io # ios) =
     (let en = (1 :: 'w word);
          nb = wr_ret io;
          unmask = [Write_call fd en (sizeof_ulong TYPE('w))]
      in if nb < of_nat (sizeof_ulong TYPE('w)) then
           (unmask @
              [print_error 201 ''uio_run'' ''Unmasking interrupts'' [],
               Munmap_call iomem AXI_GPIO_ADDR_SIZE,
               Close_call fd],
            Some EXIT_FAILURE)
         else
           (let nb = rd_ret io;
                npending = npending_val io;
                wait = [Read_call fd (sizeof_ulong TYPE('w))];
                handle =
                  (if npending \<noteq> 0 then
                     (let isr = isr_val io;
                          data = data_val io
                      in [Stdout_printf ''Interrupt was detected %lu\<newline>'' [ULong_arg npending],
                          read_reg iomem AXI_GPIO_IPISR_OFFSET isr] @
                         (if isr \<noteq> 0 then [write_reg iomem AXI_GPIO_IPISR_OFFSET isr] else []) @
                         [read_reg iomem AXI_GPIO_DATA_OFFSET data] @
                         DEBUG_PRINT dbg 221 ''uio_run'' ''GPIO_DATA: 0x%lx'' [ULong_arg data])
                   else []);
                rest = uio_loop dbg fd iomem ios
            in (unmask @ wait @ handle @ fst rest, snd rest)))"

definition uio_run :: "bool \<Rightarrow> string \<Rightarrow> 'w::len word uio_env \<Rightarrow> 'w word event list \<times> int option" where
  "uio_run dbg name env =
     (let fd = open_ret env;
          opening =
            DEBUG_PRINT dbg 155 ''uio_run'' ''Opening UIO device /dev/uio0'' [] @
            [Open_call name] @
            (if fd < 0 then
               [print_error 159 ''uio_run'' ''Failure to open /dev/uio0 device - %s''
                  [Str_arg (open_errstr env)]]
             else []);
          iomem = mmap_ret env;
          mapping = [Mmap_call AXI_GPIO_ADDR_SIZE fd]
      in if iomem = MAP_FAILED then
           (opening @ mapping @
              [print_error 171 ''uio_run'' ''Failure to map memory - %s''
                 [Str_arg (mmap_errstr env)],
               Close_call fd],
            Some EXIT_FAILURE)
         else
           (let tri = tri_val env;
                tri = tri OR push_bit 0 1;
                ier = ier_val env;
                ier = ier OR push_bit 0 1;
                init =
                  DEBUG_PRINT dbg 176 ''uio_run'' ''Initializing AXI GPIO peripheral...'' [] @
                  [write_reg iomem AXI_GPIO_GIER_OFFSET 0,
                   read_reg iomem AXI_GPIO_TRI_OFFSET (tri_val env),
                   write_reg iomem AXI_GPIO_TRI_OFFSET tri,
                   read_reg iomem AXI_GPIO_IPIER_OFFSET (ier_val env),
                   write_reg iomem AXI_GPIO_IPIER_OFFSET ier,
                   write_reg iomem AXI_GPIO_GIER_OFFSET (word_of_int AXI_GPIO_GIER_ENABLE),
                   Usleep_call (1000 * 50)] @
                  DEBUG_PRINT dbg 194 ''uio_run'' ''Waiting for interrupt to occur'' [];
                loop = uio_loop dbg fd iomem (iters env)
            in (opening @ mapping @ init @ fst loop, snd loop)))"

subsection \<open>main\<close>

text \<open>
  One call of \<open>getopt(argc, argv, "d:D")\<close>: its result and the values it leaves in
  \<open>optarg\<close> and \<open>optopt\<close>. The command line reaches \<open>main\<close> only through these calls.
\<close>

record getopt_io =
  g_ret :: int
  g_optarg :: "string option"
  g_optopt :: int

text \<open>\<open>isprint\<close> in the C locale.\<close>

definition isprint :: "int \<Rightarrow> bool" where
  "isprint c = (0x20 \<le> c \<and> c \<le> 0x7E)"

text \<open>
  The option loop: \<open>Inl\<close> is a \<open>return\<close> out of \<open>main\<close> from inside the \<open>switch\<close>, with
  what was printed and the status; \<open>Inr\<close> is the loop's end, with \<open>name\<close> and \<open>daemonize\<close>.
\<close>

fun getopt_loop ::
  "getopt_io list \<Rightarrow> string option \<Rightarrow> int \<Rightarrow> ('w word event list \<times> int) + (string option \<times> int)" where
  "getopt_loop [] name daemonize = Inr (name, daemonize)"
| "getopt_loop (g # gs) name daemonize =
     (let opt = g_ret g;
          optopt = g_optopt g
      in if opt = - 1 then Inr (name, daemonize)
         else if opt = of_char (CHR ''d'') then getopt_loop gs (g_optarg g) daemonize
         else if opt = of_char (CHR ''D'') then getopt_loop gs name 1
         else if opt = of_char (CHR ''?'') then
           Inl ([if isprint optopt then
                   print_error 257 ''main'' (''Unknown option `-%c'' @ [CHR 0x27]) [Int_arg optopt]
                 else
                   print_error 259 ''main''
                     (''Unknown option character `'' @ [CHR 0x5C] @ ''x%x'' @ [CHR 0x27])
                     [Int_arg optopt],
                 usage],
                EXIT_FAILURE)
         else Inl ([usage], EXIT_FAILURE))"

text \<open>
  \<open>daemonize\<close> is declared without an initialiser, so its value when no \<open>-D\<close> was seen
  is whatever the stack holds: the input \<open>daemonize_init\<close>. The status is the one the
  process ends with, by \<open>return\<close> from \<open>main\<close>, by \<open>exit\<close> or by \<open>err\<close>.
\<close>

record 'v main_env =
  signal_err :: bool          \<comment> \<open>\<open>signal\<close> returned \<open>SIG_ERR\<close>\<close>
  opts :: "getopt_io list"
  daemonize_init :: int
  fork_ret :: int
  uio :: "'v uio_env"

definition main :: "bool \<Rightarrow> 'w::len word main_env \<Rightarrow> 'w word event list \<times> int option" where
  "main dbg env =
     (let installing = [Signal_call SIGINT]
      in if signal_err env then (installing, Some EXIT_FAILURE)
         else
           (case getopt_loop (opts env) None (daemonize_init env) of
              Inl (printed, status) \<Rightarrow> (installing @ printed, Some status)
            | Inr (name, daemonize) \<Rightarrow>
                (let pid = fork_ret env;
                     forking =
                       (if daemonize \<noteq> 0 then
                          (if pid < 0 then
                             ([Fork_call, print_error 274 ''main'' ''Failed to fork process'' [],
                               Err_call EXIT_FAILURE],
                              Some EXIT_FAILURE)
                           else if pid > 0 then
                             ([Fork_call,
                               Stdout_printf ''UIO test daemon starting with PID: %d\<newline>''
                                 [Int_arg pid]],
                              Some EXIT_SUCCESS)
                           else ([Fork_call], None))
                        else ([], None))
                 in case snd forking of
                      Some status \<Rightarrow> (installing @ fst forking, Some status)
                    | None \<Rightarrow>
                        (case name of
                           None \<Rightarrow> (installing @ fst forking @ [usage], Some EXIT_FAILURE)
                         | Some path \<Rightarrow>
                             (let run = uio_run dbg path (uio env)
                              in (installing @ fst forking @ fst run, snd run))))))"

subsection \<open>Delivery of SIGINT\<close>




subsection \<open>Classes of events and predicates on passes\<close>

text \<open>The test of line 200, on the result of the unmask \<open>write\<close> of one pass.\<close>

definition short_write :: "'w::len word iter_io \<Rightarrow> bool" where
  "short_write io = (wr_ret io < of_nat (sizeof_ulong TYPE('w)))"

fun is_reg_access :: "'v event \<Rightarrow> bool" where
  "is_reg_access (Reg_read b off v) = True"
| "is_reg_access (Reg_write b off v) = True"
| "is_reg_access e = False"

fun is_teardown :: "'v event \<Rightarrow> bool" where
  "is_teardown (Munmap_call a n) = True"
| "is_teardown (Close_call fd) = True"
| "is_teardown e = False"

fun is_dev_io :: "'v event \<Rightarrow> bool" where
  "is_dev_io (Write_call fd v n) = True"
| "is_dev_io (Read_call fd n) = True"
| "is_dev_io e = False"

fun is_unmask :: "'v event \<Rightarrow> bool" where
  "is_unmask (Write_call fd v n) = True"
| "is_unmask e = False"

fun is_device_access :: "'v event \<Rightarrow> bool" where
  "is_device_access (Open_call path) = True"
| "is_device_access (Mmap_call n fd) = True"
| "is_device_access (Munmap_call a n) = True"
| "is_device_access (Close_call fd) = True"
| "is_device_access (Write_call fd v n) = True"
| "is_device_access (Read_call fd n) = True"
| "is_device_access (Reg_read b off v) = True"
| "is_device_access (Reg_write b off v) = True"
| "is_device_access e = False"

text \<open>
  A sequence of calls on the device file in which every \<open>read\<close> comes directly after a
  \<open>write\<close> of its own: \<open>write read write read ...\<close>, possibly ending in a \<open>write\<close>.
\<close>

fun unmask_then_wait :: "'v event list \<Rightarrow> bool" where
  "unmask_then_wait [] = True"
| "unmask_then_wait [Write_call fd v n] = True"
| "unmask_then_wait (Write_call fd v n # Read_call fd' n' # es) = unmask_then_wait es"
| "unmask_then_wait es = False"

section \<open>Facts about the model\<close>

subsection \<open>The size of a word and the unmask test\<close>

lemma sizeof_ulong_lt: "sizeof_ulong TYPE('w::len) < 2 ^ LENGTH('w)"
proof -
  have "LENGTH('w) div 8 \<le> LENGTH('w)" by simp
  also have "\<dots> < 2 ^ LENGTH('w)" by (rule less_exp)
  finally show ?thesis by (simp add: sizeof_ulong_def)
qed

lemma unat_sizeof_ulong: "unat (of_nat (sizeof_ulong TYPE('w)) :: 'w::len word) = sizeof_ulong TYPE('w)"
  by (rule of_nat_inverse [OF refl sizeof_ulong_lt])

lemma short_count_short:
  fixes io :: "'w::len word iter_io"
  assumes "0 \<le> sint (wr_ret io)" "sint (wr_ret io) < int (sizeof_ulong TYPE('w))"
  shows "short_write io"
proof -
  have "int (sizeof_ulong TYPE('w)) < int (2 ^ LENGTH('w))"
    using sizeof_ulong_lt [where 'w='w] by (simp only: of_nat_less_iff)
  then have "int (sizeof_ulong TYPE('w)) < 2 ^ LENGTH('w)"
    by simp
  with assms(2) have "sint (wr_ret io) < 2 ^ LENGTH('w)"
    by (rule less_trans)
  then have "take_bit LENGTH('w) (sint (wr_ret io)) = sint (wr_ret io)"
    using assms(1) by (rule take_bit_int_eq_self [rotated])
  then have "uint (wr_ret io) = sint (wr_ret io)"
    by (simp only: uint_sint)
  then have "int (unat (wr_ret io)) < int (sizeof_ulong TYPE('w))"
    using assms(2) by simp
  then have "unat (wr_ret io) < sizeof_ulong TYPE('w)" by (simp only: of_nat_less_iff)
  then show ?thesis
    unfolding short_write_def word_less_nat_alt unat_sizeof_ulong .
qed

lemma minus_one_not_short: "wr_ret io = - 1 \<Longrightarrow> \<not> short_write io"
  by (simp add: short_write_def not_less)

lemma uio_loop_append:
  "\<forall>x\<in>set pre. \<not> short_write x \<Longrightarrow>
   uio_loop dbg fd m (pre @ rest) =
     (fst (uio_loop dbg fd m pre) @ fst (uio_loop dbg fd m rest), snd (uio_loop dbg fd m rest))"
  by (induction pre) (simp_all add: Let_def short_write_def)

lemma uio_loop_status:
  "snd (uio_loop dbg fd m ios) = (if \<exists>x\<in>set ios. short_write x then Some EXIT_FAILURE else None)"
  by (induction ios) (simp_all add: Let_def short_write_def)

subsection \<open>The shape of a run\<close>

lemma filter_DEBUG_PRINT [simp]:
  "filter is_reg_access (DEBUG_PRINT dbg l f fmt args) = []"
  "filter is_teardown (DEBUG_PRINT dbg l f fmt args) = []"
  "filter is_dev_io (DEBUG_PRINT dbg l f fmt args) = []"
  "filter is_unmask (DEBUG_PRINT dbg l f fmt args) = []"
  "filter is_device_access (DEBUG_PRINT dbg l f fmt args) = []"
  by (simp_all add: DEBUG_PRINT_def)

lemma class_print_error [simp]:
  "\<not> is_reg_access (print_error l f fmt args)"
  "\<not> is_teardown (print_error l f fmt args)"
  "\<not> is_dev_io (print_error l f fmt args)"
  "\<not> is_unmask (print_error l f fmt args)"
  "\<not> is_device_access (print_error l f fmt args)"
  by (simp_all add: print_error_def)

lemma uio_run_failed:
  "mmap_ret env = MAP_FAILED \<Longrightarrow>
   uio_run dbg name env =
     (DEBUG_PRINT dbg 155 ''uio_run'' ''Opening UIO device /dev/uio0'' [] @
      [Open_call name] @
      (if open_ret env < 0 then
         [print_error 159 ''uio_run'' ''Failure to open /dev/uio0 device - %s'' [Str_arg (open_errstr env)]]
       else []) @
      [Mmap_call AXI_GPIO_ADDR_SIZE (open_ret env),
       print_error 171 ''uio_run'' ''Failure to map memory - %s'' [Str_arg (mmap_errstr env)],
       Close_call (open_ret env)],
      Some EXIT_FAILURE)"
  by (simp add: uio_run_def Let_def)

lemma uio_run_mapped:
  "mmap_ret env \<noteq> MAP_FAILED \<Longrightarrow>
   uio_run dbg name env =
     ((DEBUG_PRINT dbg 155 ''uio_run'' ''Opening UIO device /dev/uio0'' [] @
       [Open_call name] @
       (if open_ret env < 0 then
          [print_error 159 ''uio_run'' ''Failure to open /dev/uio0 device - %s'' [Str_arg (open_errstr env)]]
        else []) @
       [Mmap_call AXI_GPIO_ADDR_SIZE (open_ret env)] @
       DEBUG_PRINT dbg 176 ''uio_run'' ''Initializing AXI GPIO peripheral...'' [] @
       [Reg_write (mmap_ret env) AXI_GPIO_GIER_OFFSET 0,
        Reg_read (mmap_ret env) AXI_GPIO_TRI_OFFSET (tri_val env),
        Reg_write (mmap_ret env) AXI_GPIO_TRI_OFFSET (tri_val env OR 1),
        Reg_read (mmap_ret env) AXI_GPIO_IPIER_OFFSET (ier_val env),
        Reg_write (mmap_ret env) AXI_GPIO_IPIER_OFFSET (ier_val env OR 1),
        Reg_write (mmap_ret env) AXI_GPIO_GIER_OFFSET (word_of_int AXI_GPIO_GIER_ENABLE)]) @
      Usleep_call 50000 #
      DEBUG_PRINT dbg 194 ''uio_run'' ''Waiting for interrupt to occur'' [] @
      fst (uio_loop dbg (open_ret env) (mmap_ret env) (iters env)),
      snd (uio_loop dbg (open_ret env) (mmap_ret env) (iters env)))"
  by (simp add: uio_run_def Let_def read_reg_def write_reg_def)


lemma uio_loop_Cons_short:
  "short_write io \<Longrightarrow>
   uio_loop dbg fd m (io # ios) =
     ([Write_call fd 1 (sizeof_ulong TYPE('w)),
       print_error 201 ''uio_run'' ''Unmasking interrupts'' [],
       Munmap_call m AXI_GPIO_ADDR_SIZE,
       Close_call fd],
      Some EXIT_FAILURE)"
  for m :: "'w::len word"
  by (simp add: short_write_def Let_def)

lemma uio_loop_Cons_pass:
  "\<not> short_write io \<Longrightarrow>
   uio_loop dbg fd m (io # ios) =
     ([Write_call fd 1 (sizeof_ulong TYPE('w)), Read_call fd (sizeof_ulong TYPE('w))] @
      (if npending_val io \<noteq> 0 then
         [Stdout_printf ''Interrupt was detected %lu\<newline>'' [ULong_arg (npending_val io)],
          Reg_read m AXI_GPIO_IPISR_OFFSET (isr_val io)] @
         (if isr_val io \<noteq> 0 then [Reg_write m AXI_GPIO_IPISR_OFFSET (isr_val io)] else []) @
         [Reg_read m AXI_GPIO_DATA_OFFSET (data_val io)] @
         DEBUG_PRINT dbg 221 ''uio_run'' ''GPIO_DATA: 0x%lx'' [ULong_arg (data_val io)]
       else []) @
      fst (uio_loop dbg fd m ios),
      snd (uio_loop dbg fd m ios))"
  for m :: "'w::len word"
  by (simp add: short_write_def Let_def read_reg_def write_reg_def)

lemma uio_loop_pass_teardown:
  "\<forall>x\<in>set ios. \<not> short_write x \<Longrightarrow> filter is_teardown (fst (uio_loop dbg fd m ios)) = []"
  by (induction ios) (simp_all add: uio_loop_Cons_pass del: uio_loop.simps(2))

lemma uio_loop_pass_unmask:
  "\<forall>x\<in>set ios. \<not> short_write x \<Longrightarrow>
   length (filter is_unmask (fst (uio_loop dbg fd m ios))) = length ios"
  by (induction ios) (simp_all add: uio_loop_Cons_pass del: uio_loop.simps(2))

lemma uio_loop_pass_dev_io:
  "\<forall>x\<in>set ios. \<not> short_write x \<Longrightarrow>
   filter is_dev_io (fst (uio_loop dbg fd m ios)) =
     concat (map (\<lambda>x. [Write_call fd 1 (sizeof_ulong TYPE('w)), Read_call fd (sizeof_ulong TYPE('w))]) ios)"
  for m :: "'w::len word"
  by (induction ios) (simp_all add: uio_loop_Cons_pass del: uio_loop.simps(2))

lemma uio_loop_unmask_then_wait:
  "unmask_then_wait (filter is_dev_io (fst (uio_loop dbg fd m ios)))"
proof (induction ios)
  case Nil
  show ?case by simp
next
  case (Cons io ios)
  show ?case
  proof (cases "short_write io")
    case True
    then show ?thesis by (simp add: uio_loop_Cons_short del: uio_loop.simps(2))
  next
    case False
    with Cons show ?thesis by (simp add: uio_loop_Cons_pass del: uio_loop.simps(2))
  qed
qed

lemma uio_run_prologue:
  fixes env :: "'w::len word uio_env"
  assumes "mmap_ret env \<noteq> MAP_FAILED"
  obtains P where
    "uio_run dbg name env =
       (P @ fst (uio_loop dbg (open_ret env) (mmap_ret env) (iters env)),
        snd (uio_loop dbg (open_ret env) (mmap_ret env) (iters env)))"
    and "filter is_dev_io P = []"
    and "filter is_unmask P = []"
    and "filter is_teardown P = []"
    and "filter is_reg_access P =
          [Reg_write (mmap_ret env) AXI_GPIO_GIER_OFFSET 0,
           Reg_read (mmap_ret env) AXI_GPIO_TRI_OFFSET (tri_val env),
           Reg_write (mmap_ret env) AXI_GPIO_TRI_OFFSET (tri_val env OR 1),
           Reg_read (mmap_ret env) AXI_GPIO_IPIER_OFFSET (ier_val env),
           Reg_write (mmap_ret env) AXI_GPIO_IPIER_OFFSET (ier_val env OR 1),
           Reg_write (mmap_ret env) AXI_GPIO_GIER_OFFSET (word_of_int AXI_GPIO_GIER_ENABLE)]"
proof -
  let ?P = "(DEBUG_PRINT dbg 155 ''uio_run'' ''Opening UIO device /dev/uio0'' [] @
       [Open_call name] @
       (if open_ret env < 0 then
          [print_error 159 ''uio_run'' ''Failure to open /dev/uio0 device - %s'' [Str_arg (open_errstr env)]]
        else []) @
       [Mmap_call AXI_GPIO_ADDR_SIZE (open_ret env)] @
       DEBUG_PRINT dbg 176 ''uio_run'' ''Initializing AXI GPIO peripheral...'' [] @
       [Reg_write (mmap_ret env) AXI_GPIO_GIER_OFFSET 0,
        Reg_read (mmap_ret env) AXI_GPIO_TRI_OFFSET (tri_val env),
        Reg_write (mmap_ret env) AXI_GPIO_TRI_OFFSET (tri_val env OR 1),
        Reg_read (mmap_ret env) AXI_GPIO_IPIER_OFFSET (ier_val env),
        Reg_write (mmap_ret env) AXI_GPIO_IPIER_OFFSET (ier_val env OR 1),
        Reg_write (mmap_ret env) AXI_GPIO_GIER_OFFSET (word_of_int AXI_GPIO_GIER_ENABLE)]) @
      Usleep_call 50000 #
      DEBUG_PRINT dbg 194 ''uio_run'' ''Waiting for interrupt to occur'' []"
  show thesis
  proof (rule that [of ?P])
    show "uio_run dbg name env =
       (?P @ fst (uio_loop dbg (open_ret env) (mmap_ret env) (iters env)),
        snd (uio_loop dbg (open_ret env) (mmap_ret env) (iters env)))"
      by (simp add: uio_run_mapped [OF assms])
  qed simp_all
qed

subsection \<open>Release of the resources, and SIGINT\<close>










subsection \<open>The option loop\<close>

lemma class_usage [simp]:
  "\<not> is_device_access usage" "usage \<noteq> Fork_call"
  by (simp_all add: usage_def)

lemma getopt_loop_without_d:
  assumes "\<forall>g\<in>set gs. g_ret g \<noteq> of_char (CHR ''d'') \<and> g_ret g \<noteq> of_char (CHR ''D'')"
  shows "(\<exists>printed. getopt_loop gs name dz = Inl (printed, EXIT_FAILURE) \<and>
            printed \<noteq> [] \<and> last printed = usage \<and>
            (\<forall>e\<in>set printed. \<not> is_device_access e)) \<or>
         getopt_loop gs name dz = Inr (name, dz)"
  using assms
proof (induction gs)
  case Nil
  show ?case by simp
next
  case (Cons g gs)
  from Cons.prems have nd: "g_ret g \<noteq> of_char (CHR ''d'')" "g_ret g \<noteq> of_char (CHR ''D'')"
    and rest: "\<forall>g\<in>set gs. g_ret g \<noteq> of_char (CHR ''d'') \<and> g_ret g \<noteq> of_char (CHR ''D'')"
    by simp_all
  show ?case
  proof (cases "g_ret g = - 1")
    case True
    then show ?thesis by (simp add: Let_def)
  next
    case False
    with nd show ?thesis
      by (simp add: Let_def print_error_def usage_def)
  qed
qed

lemma main_without_d_daemonize_zero:
  fixes env :: "'w::len word main_env"
  assumes "\<not> signal_err env"
    and "\<forall>g\<in>set (opts env). g_ret g \<noteq> of_char (CHR ''d'') \<and> g_ret g \<noteq> of_char (CHR ''D'')"
    and "daemonize_init env = 0"
  shows "snd (main dbg env) = Some EXIT_FAILURE \<and>
         last (fst (main dbg env)) = usage \<and>
         filter is_device_access (fst (main dbg env)) = []"
proof -
  from getopt_loop_without_d [OF assms(2), of None "daemonize_init env", where 'b='w]
  consider
    (ret) printed where "getopt_loop (opts env) None (daemonize_init env) =
        (Inl (printed, EXIT_FAILURE) :: ('w word event list \<times> int) + (string option \<times> int))"
      "printed \<noteq> []" "last printed = usage" "\<forall>e\<in>set printed. \<not> is_device_access e"
  | (fin) "getopt_loop (opts env) None (daemonize_init env) =
        (Inr (None, daemonize_init env) :: ('w word event list \<times> int) + (string option \<times> int))"
    by blast
  then show ?thesis
  proof cases
    case ret
    with assms(1) show ?thesis
      by (simp add: main_def Let_def filter_empty_conv)
  next
    case fin
    with assms(1,3) show ?thesis
      by (simp add: main_def Let_def)
  qed
qed

section \<open>The claims\<close>

text \<open>
  Claim C1. When \<open>open\<close> and \<open>mmap\<close> succeed, the events of \<open>uio_run\<close> that come before
  the settling sleep and the wait loop contain exactly six register accesses, in this
  order: the global interrupt enable register is written with 0; the direction register
  is loaded and stored back with bit 0 set; the per-channel interrupt enable register is
  loaded and stored back with bit 0 set; the global interrupt enable register is written
  with \<open>AXI_GPIO_GIER_ENABLE\<close>, whose bit 31 is set. No call on the device file comes
  before them.
\<close>

theorem C1_initialisation_order:
  fixes env :: "'w::len word uio_env"
  assumes "0 \<le> open_ret env" and "mmap_ret env \<noteq> MAP_FAILED"
  shows "\<exists>before.
           fst (uio_run dbg name env) =
             before @
             Usleep_call 50000 #
             DEBUG_PRINT dbg 194 ''uio_run'' ''Waiting for interrupt to occur'' [] @
             fst (uio_loop dbg (open_ret env) (mmap_ret env) (iters env)) \<and>
           filter is_reg_access before =
             [Reg_write (mmap_ret env) AXI_GPIO_GIER_OFFSET 0,
              Reg_read (mmap_ret env) AXI_GPIO_TRI_OFFSET (tri_val env),
              Reg_write (mmap_ret env) AXI_GPIO_TRI_OFFSET (tri_val env OR 1),
              Reg_read (mmap_ret env) AXI_GPIO_IPIER_OFFSET (ier_val env),
              Reg_write (mmap_ret env) AXI_GPIO_IPIER_OFFSET (ier_val env OR 1),
              Reg_write (mmap_ret env) AXI_GPIO_GIER_OFFSET (word_of_int AXI_GPIO_GIER_ENABLE)] \<and>
           filter is_dev_io before = [] \<and>
           bit (tri_val env OR 1) 0 \<and>
           bit (ier_val env OR 1) 0 \<and>
           (31 < LENGTH('w) \<longrightarrow> bit (word_of_int AXI_GPIO_GIER_ENABLE :: 'w word) 31)"
proof -
  have gier: "31 < LENGTH('w) \<longrightarrow> bit (word_of_int AXI_GPIO_GIER_ENABLE :: 'w word) 31"
    by (simp add: AXI_GPIO_GIER_ENABLE_def bit_word_of_int_iff bit_simps)
  have bits: "bit (tri_val env OR 1) 0" "bit (ier_val env OR 1) 0"
    by (simp_all add: bit_or_iff)
  show ?thesis
    unfolding uio_run_mapped [OF assms(2)] fst_conv
    apply (rule exI, intro conjI)
         apply (rule refl)
    using assms(1) gier bits by simp_all
qed

theorem C1_initialisation_order_witness:
  "\<exists>before.
     fst (uio_run False ''/dev/uio0''
            \<lparr>open_ret = 3, open_errstr = [], mmap_ret = (0x76F00000 :: 32 word),
             mmap_errstr = [], tri_val = 0xFFFFFFFE, ier_val = 0, iters = []\<rparr>) =
       before @ [Usleep_call 50000] \<and>
     filter is_reg_access before =
       [Reg_write 0x76F00000 0x11C 0,
        Reg_read 0x76F00000 4 0xFFFFFFFE,
        Reg_write 0x76F00000 4 0xFFFFFFFF,
        Reg_read 0x76F00000 0x128 0,
        Reg_write 0x76F00000 0x128 1,
        Reg_write 0x76F00000 0x11C 0x80000000]"
proof -
  have enable: "(- 2147483648 :: 32 word) = 2147483648"
    by simp
  show ?thesis
    using C1_initialisation_order
      [of "\<lparr>open_ret = 3, open_errstr = [], mmap_ret = (0x76F00000 :: 32 word),
               mmap_errstr = [], tri_val = 0xFFFFFFFE, ier_val = 0, iters = []\<rparr>"
          False "''/dev/uio0''"]
    by (simp add: MAP_FAILED_def DEBUG_PRINT_def AXI_GPIO_GIER_OFFSET_def AXI_GPIO_TRI_OFFSET_def
          AXI_GPIO_IPIER_OFFSET_def AXI_GPIO_GIER_ENABLE_def enable) blast
qed

text \<open>
  Claim C2. In whichever pass of the loop the unmask test lets the \<open>read\<close> happen and
  \<open>npending\<close> is not zero afterwards, the actions that follow the \<open>read\<close> are: the report
  of the count, a load of the interrupt status register, a store of exactly the loaded
  value to the same register if that value is not zero (and no store otherwise), and then
  a load of the data register, whose value goes unchanged to the debug print. The next
  pass follows.
\<close>

theorem C2_interrupt_handling:
  fixes env :: "'w::len word uio_env"
  assumes "mmap_ret env \<noteq> MAP_FAILED"
    and "iters env = pre @ io # post"
    and "\<forall>x\<in>set pre. \<not> short_write x"
    and "\<not> short_write io"
    and "npending_val io \<noteq> 0"
  shows "\<exists>before.
           fst (uio_run dbg name env) =
             before @
             [Read_call (open_ret env) (sizeof_ulong TYPE('w)),
              Stdout_printf ''Interrupt was detected %lu\<newline>'' [ULong_arg (npending_val io)],
              Reg_read (mmap_ret env) AXI_GPIO_IPISR_OFFSET (isr_val io)] @
             (if isr_val io \<noteq> 0
              then [Reg_write (mmap_ret env) AXI_GPIO_IPISR_OFFSET (isr_val io)] else []) @
             [Reg_read (mmap_ret env) AXI_GPIO_DATA_OFFSET (data_val io)] @
             DEBUG_PRINT dbg 221 ''uio_run'' ''GPIO_DATA: 0x%lx'' [ULong_arg (data_val io)] @
             fst (uio_loop dbg (open_ret env) (mmap_ret env) post)"
proof -
  let ?fd = "open_ret env" and ?m = "mmap_ret env"
  obtain P where run: "uio_run dbg name env =
       (P @ fst (uio_loop dbg ?fd ?m (iters env)), snd (uio_loop dbg ?fd ?m (iters env)))"
    by (rule uio_run_prologue [OF assms(1)])
  have loop: "uio_loop dbg ?fd ?m (iters env) =
      (fst (uio_loop dbg ?fd ?m pre) @
       [Write_call ?fd 1 (sizeof_ulong TYPE('w)), Read_call ?fd (sizeof_ulong TYPE('w))] @
       [Stdout_printf ''Interrupt was detected %lu\<newline>'' [ULong_arg (npending_val io)],
        Reg_read ?m AXI_GPIO_IPISR_OFFSET (isr_val io)] @
       (if isr_val io \<noteq> 0 then [Reg_write ?m AXI_GPIO_IPISR_OFFSET (isr_val io)] else []) @
       [Reg_read ?m AXI_GPIO_DATA_OFFSET (data_val io)] @
       DEBUG_PRINT dbg 221 ''uio_run'' ''GPIO_DATA: 0x%lx'' [ULong_arg (data_val io)] @
       fst (uio_loop dbg ?fd ?m post),
       snd (uio_loop dbg ?fd ?m post))"
    unfolding assms(2) uio_loop_append [OF assms(3)] uio_loop_Cons_pass [OF assms(4)]
    using assms(5) by simp
  have eq: "fst (uio_run dbg name env) =
      (P @ fst (uio_loop dbg ?fd ?m pre) @ [Write_call ?fd 1 (sizeof_ulong TYPE('w))]) @
             [Read_call (open_ret env) (sizeof_ulong TYPE('w)),
              Stdout_printf ''Interrupt was detected %lu\<newline>'' [ULong_arg (npending_val io)],
              Reg_read (mmap_ret env) AXI_GPIO_IPISR_OFFSET (isr_val io)] @
             (if isr_val io \<noteq> 0
              then [Reg_write (mmap_ret env) AXI_GPIO_IPISR_OFFSET (isr_val io)] else []) @
             [Reg_read (mmap_ret env) AXI_GPIO_DATA_OFFSET (data_val io)] @
             DEBUG_PRINT dbg 221 ''uio_run'' ''GPIO_DATA: 0x%lx'' [ULong_arg (data_val io)] @
             fst (uio_loop dbg (open_ret env) (mmap_ret env) post)"
    unfolding run loop fst_conv by (simp only: append_assoc append_Cons append_Nil)
  show ?thesis by (rule exI, rule eq)
qed

theorem C2_interrupt_handling_witness:
  "\<exists>before.
     fst (uio_run False ''/dev/uio0''
            \<lparr>open_ret = 3, open_errstr = [], mmap_ret = (0x76F00000 :: 32 word),
             mmap_errstr = [], tri_val = 0, ier_val = 0,
             iters = [\<lparr>wr_ret = 4, rd_ret = 4, npending_val = 2, isr_val = 1, data_val = 1\<rparr>]\<rparr>) =
       before @
       [Read_call 3 4,
        Stdout_printf ''Interrupt was detected %lu\<newline>'' [ULong_arg 2],
        Reg_read 0x76F00000 0x120 1,
        Reg_write 0x76F00000 0x120 1,
        Reg_read 0x76F00000 0 1]"
  using C2_interrupt_handling
    [of "\<lparr>open_ret = 3, open_errstr = [], mmap_ret = (0x76F00000 :: 32 word),
             mmap_errstr = [], tri_val = 0, ier_val = 0,
             iters = [\<lparr>wr_ret = 4, rd_ret = 4, npending_val = 2, isr_val = 1, data_val = 1\<rparr>]\<rparr>"
        "[]" "\<lparr>wr_ret = 4, rd_ret = 4, npending_val = 2, isr_val = 1, data_val = 1\<rparr>" "[]"
        False "''/dev/uio0''"]
  by (simp add: MAP_FAILED_def short_write_def sizeof_ulong_def DEBUG_PRINT_def
        AXI_GPIO_IPISR_OFFSET_def AXI_GPIO_DATA_OFFSET_def)

text \<open>
  Claim C3. In whichever pass of the loop the unmask \<open>write\<close> returns a byte count from
  0 up to, and not including, the size of the word, \<open>uio_run\<close> returns \<open>EXIT_FAILURE\<close>, and
  its last four actions are that \<open>write\<close>, the diagnostic, \<open>munmap\<close> of the register window
  and \<open>close\<close> of the descriptor. There is no retry: the \<open>write\<close> calls before it are one
  per earlier pass, the passes that would follow are not run, and nothing was released
  earlier.
\<close>

theorem C3_short_unmask_write_is_fatal:
  fixes env :: "'w::len word uio_env"
  assumes "mmap_ret env \<noteq> MAP_FAILED"
    and "iters env = pre @ io # post"
    and "\<forall>x\<in>set pre. \<not> short_write x"
    and "0 \<le> sint (wr_ret io)"
    and "sint (wr_ret io) < int (sizeof_ulong TYPE('w))"
  shows "snd (uio_run dbg name env) = Some EXIT_FAILURE \<and>
         (\<exists>before.
            fst (uio_run dbg name env) =
              before @
              [Write_call (open_ret env) 1 (sizeof_ulong TYPE('w)),
               print_error 201 ''uio_run'' ''Unmasking interrupts'' [],
               Munmap_call (mmap_ret env) AXI_GPIO_ADDR_SIZE,
               Close_call (open_ret env)] \<and>
            length (filter is_unmask before) = length pre \<and>
            filter is_teardown before = [])"
proof -
  let ?fd = "open_ret env" and ?m = "mmap_ret env"
  let ?exit = "[Write_call ?fd 1 (sizeof_ulong TYPE('w)),
          print_error 201 ''uio_run'' ''Unmasking interrupts'' [],
          Munmap_call ?m AXI_GPIO_ADDR_SIZE,
          Close_call ?fd]"
  have short: "short_write io"
    using assms(4,5) by (rule short_count_short)
  have loop: "uio_loop dbg ?fd ?m (iters env) = (fst (uio_loop dbg ?fd ?m pre) @ ?exit, Some EXIT_FAILURE)"
    unfolding assms(2)
    by (simp add: uio_loop_append [OF assms(3)] uio_loop_Cons_short [OF short] del: uio_loop.simps(2))
  obtain P where run: "uio_run dbg name env =
       (P @ fst (uio_loop dbg ?fd ?m (iters env)), snd (uio_loop dbg ?fd ?m (iters env)))"
    and P: "filter is_unmask P = []" "filter is_teardown P = []"
    using uio_run_prologue [OF assms(1)] by metis
  have st: "snd (uio_run dbg name env) = Some EXIT_FAILURE"
    by (simp add: run loop)
  have "fst (uio_run dbg name env) = (P @ fst (uio_loop dbg ?fd ?m pre)) @ ?exit"
    by (simp add: run loop)
  moreover have "length (filter is_unmask (P @ fst (uio_loop dbg ?fd ?m pre))) = length pre"
    using assms(3) by (simp add: P uio_loop_pass_unmask)
  moreover have "filter is_teardown (P @ fst (uio_loop dbg ?fd ?m pre)) = []"
    using assms(3) by (simp add: P uio_loop_pass_teardown)
  ultimately show ?thesis
    using st by blast
qed

theorem C3_short_unmask_write_is_fatal_witness:
  "snd (uio_run False ''/dev/uio0''
          \<lparr>open_ret = 3, open_errstr = [], mmap_ret = (0x76F00000 :: 32 word),
           mmap_errstr = [], tri_val = 0, ier_val = 0,
           iters = [\<lparr>wr_ret = 4, rd_ret = 4, npending_val = 1, isr_val = 1, data_val = 1\<rparr>,
                    \<lparr>wr_ret = 2, rd_ret = 4, npending_val = 1, isr_val = 1, data_val = 1\<rparr>,
                    \<lparr>wr_ret = 4, rd_ret = 4, npending_val = 1, isr_val = 1, data_val = 1\<rparr>]\<rparr>)
     = Some EXIT_FAILURE \<and>
   (\<exists>before.
      fst (uio_run False ''/dev/uio0''
          \<lparr>open_ret = 3, open_errstr = [], mmap_ret = (0x76F00000 :: 32 word),
           mmap_errstr = [], tri_val = 0, ier_val = 0,
           iters = [\<lparr>wr_ret = 4, rd_ret = 4, npending_val = 1, isr_val = 1, data_val = 1\<rparr>,
                    \<lparr>wr_ret = 2, rd_ret = 4, npending_val = 1, isr_val = 1, data_val = 1\<rparr>,
                    \<lparr>wr_ret = 4, rd_ret = 4, npending_val = 1, isr_val = 1, data_val = 1\<rparr>]\<rparr>) =
        before @
        [Write_call 3 1 4,
         print_error 201 ''uio_run'' ''Unmasking interrupts'' [],
         Munmap_call 0x76F00000 0x10000,
         Close_call 3] \<and>
      length (filter is_unmask before) = 1 \<and>
      filter is_teardown before = [])"
  using C3_short_unmask_write_is_fatal
    [of "\<lparr>open_ret = 3, open_errstr = [], mmap_ret = (0x76F00000 :: 32 word),
           mmap_errstr = [], tri_val = 0, ier_val = 0,
           iters = [\<lparr>wr_ret = 4, rd_ret = 4, npending_val = 1, isr_val = 1, data_val = 1\<rparr>,
                    \<lparr>wr_ret = 2, rd_ret = 4, npending_val = 1, isr_val = 1, data_val = 1\<rparr>,
                    \<lparr>wr_ret = 4, rd_ret = 4, npending_val = 1, isr_val = 1, data_val = 1\<rparr>]\<rparr>"
        "[\<lparr>wr_ret = 4, rd_ret = 4, npending_val = 1, isr_val = 1, data_val = 1\<rparr>]"
        "\<lparr>wr_ret = 2, rd_ret = 4, npending_val = 1, isr_val = 1, data_val = 1\<rparr>"
        "[\<lparr>wr_ret = 4, rd_ret = 4, npending_val = 1, isr_val = 1, data_val = 1\<rparr>]"
        False "''/dev/uio0''"]
  by (simp add: MAP_FAILED_def short_write_def sizeof_ulong_def AXI_GPIO_ADDR_SIZE_def)

text \<open>
  Claim C4 says that a path that cannot be opened gives a diagnostic naming the path and
  a failure exit, and that the invalid descriptor is not used further. The code does not
  do this. With the path \<open>/dev/uio1\<close> and \<open>open\<close> returning \<open>-1\<close>, the diagnostic of
  line 159 has the fixed text \<open>/dev/uio0\<close> and does not take \<open>name\<close> as an argument, and
  there is no \<open>return\<close> after it: \<open>uio_run\<close> goes on to call \<open>mmap\<close> with the descriptor
  \<open>-1\<close>, and when that fails (as it does on a bad descriptor) prints a second diagnostic
  and calls \<open>close\<close> with \<open>-1\<close>. The failure status comes from the \<open>mmap\<close> branch.
\<close>

theorem C4_open_failure_still_reaches_mmap:
  "uio_run False ''/dev/uio1''
     \<lparr>open_ret = - 1, open_errstr = ''No such file or directory'',
      mmap_ret = (MAP_FAILED :: 32 word), mmap_errstr = ''Bad file descriptor'',
      tri_val = 0, ier_val = 0, iters = []\<rparr> =
   ([Open_call ''/dev/uio1'',
     print_error 159 ''uio_run'' ''Failure to open /dev/uio0 device - %s''
       [Str_arg ''No such file or directory''],
     Mmap_call AXI_GPIO_ADDR_SIZE (- 1),
     print_error 171 ''uio_run'' ''Failure to map memory - %s'' [Str_arg ''Bad file descriptor''],
     Close_call (- 1)],
    Some EXIT_FAILURE)"
  by (simp add: uio_run_failed DEBUG_PRINT_def)

text \<open>
  Claim C5 says that a short result of the wait \<open>read\<close> is reported and ends the run with
  \<open>munmap\<close> and \<open>close\<close>, as a short unmask \<open>write\<close> does. The code stores the result of
  \<open>read\<close> in \<open>nb\<close> and never tests it. With a first pass in which \<open>read\<close> returns 2 of the
  4 bytes asked for, nothing is reported, nothing is released, and the loop goes on to the
  \<open>write\<close> and \<open>read\<close> of the second pass; the run has not returned.
\<close>

theorem C5_short_wait_read_is_not_checked:
  "uio_run False ''/dev/uio0''
     \<lparr>open_ret = 3, open_errstr = [], mmap_ret = (0x76F00000 :: 32 word),
      mmap_errstr = [], tri_val = 0, ier_val = 0,
      iters = [\<lparr>wr_ret = 4, rd_ret = 2, npending_val = 0, isr_val = 0, data_val = 0\<rparr>,
               \<lparr>wr_ret = 4, rd_ret = 4, npending_val = 0, isr_val = 0, data_val = 0\<rparr>]\<rparr> =
   ([Open_call ''/dev/uio0'',
     Mmap_call AXI_GPIO_ADDR_SIZE 3,
     Reg_write 0x76F00000 AXI_GPIO_GIER_OFFSET 0,
     Reg_read 0x76F00000 AXI_GPIO_TRI_OFFSET 0,
     Reg_write 0x76F00000 AXI_GPIO_TRI_OFFSET 1,
     Reg_read 0x76F00000 AXI_GPIO_IPIER_OFFSET 0,
     Reg_write 0x76F00000 AXI_GPIO_IPIER_OFFSET 1,
     Reg_write 0x76F00000 AXI_GPIO_GIER_OFFSET 0x80000000,
     Usleep_call 50000,
     Write_call 3 1 4,
     Read_call 3 4,
     Write_call 3 1 4,
     Read_call 3 4],
    None)"
proof -
  have mapped: "(0x76F00000 :: 32 word) \<noteq> MAP_FAILED"
    by (simp add: MAP_FAILED_def)
  have enable: "(- 2147483648 :: 32 word) = 2147483648"
    by simp
  show ?thesis
    by (simp add: uio_run_mapped mapped short_write_def sizeof_ulong_def
          uio_loop_Cons_pass DEBUG_PRINT_def AXI_GPIO_GIER_ENABLE_def enable
          del: uio_loop.simps(2))
qed




text \<open>
  Claim C7. When \<open>open\<close> succeeds and \<open>mmap\<close> fails, \<open>uio_run\<close> reports the mapping
  failure, closes the descriptor as its last action, closes it once and unmaps nothing,
  returns \<open>EXIT_FAILURE\<close>, and touches neither a register nor the device file.
\<close>

theorem C7_map_failure_closes_descriptor:
  fixes env :: "'w::len word uio_env"
  assumes "0 \<le> open_ret env" and "mmap_ret env = MAP_FAILED"
  shows "snd (uio_run dbg name env) = Some EXIT_FAILURE \<and>
         last (fst (uio_run dbg name env)) = Close_call (open_ret env) \<and>
         filter is_teardown (fst (uio_run dbg name env)) = [Close_call (open_ret env)] \<and>
         print_error 171 ''uio_run'' ''Failure to map memory - %s'' [Str_arg (mmap_errstr env)]
           \<in> set (fst (uio_run dbg name env)) \<and>
         filter is_reg_access (fst (uio_run dbg name env)) = [] \<and>
         filter is_dev_io (fst (uio_run dbg name env)) = []"
  using assms by (simp add: uio_run_failed)

theorem C7_map_failure_closes_descriptor_witness:
  "snd (uio_run False ''/dev/uio0''
          \<lparr>open_ret = 3, open_errstr = [], mmap_ret = (MAP_FAILED :: 32 word),
           mmap_errstr = ''No such device'', tri_val = 0, ier_val = 0, iters = []\<rparr>)
     = Some EXIT_FAILURE \<and>
   filter is_teardown (fst (uio_run False ''/dev/uio0''
          \<lparr>open_ret = 3, open_errstr = [], mmap_ret = (MAP_FAILED :: 32 word),
           mmap_errstr = ''No such device'', tri_val = 0, ier_val = 0, iters = []\<rparr>))
     = [Close_call 3] \<and>
   filter is_reg_access (fst (uio_run False ''/dev/uio0''
          \<lparr>open_ret = 3, open_errstr = [], mmap_ret = (MAP_FAILED :: 32 word),
           mmap_errstr = ''No such device'', tri_val = 0, ier_val = 0, iters = []\<rparr>))
     = []"
  using C7_map_failure_closes_descriptor
    [of "\<lparr>open_ret = 3, open_errstr = [], mmap_ret = (MAP_FAILED :: 32 word),
           mmap_errstr = ''No such device'', tri_val = 0, ier_val = 0, iters = []\<rparr>"
        False "''/dev/uio0''"]
  by simp

text \<open>
  Claim C8. In every run of \<open>uio_run\<close> the calls on the device file alternate, starting
  with the unmask \<open>write\<close>: each wait \<open>read\<close> comes directly after the \<open>write\<close> of its
  pass. Once the window is mapped, the run has not returned exactly when no pass had a
  short unmask \<open>write\<close>; if it has returned, the status is \<open>EXIT_FAILURE\<close> and some pass had
  one. When no pass has one, every pass, whether it handled an interrupt or not, is
  followed by the next pass: the calls on the device file are one \<open>write\<close> and one \<open>read\<close>
  per pass.
\<close>

theorem C8_unmask_precedes_wait:
  fixes env :: "'w::len word uio_env"
  shows "unmask_then_wait (filter is_dev_io (fst (uio_run dbg name env))) \<and>
         (mmap_ret env \<noteq> MAP_FAILED \<longrightarrow>
            (snd (uio_run dbg name env) = None \<longleftrightarrow> (\<forall>x\<in>set (iters env). \<not> short_write x)) \<and>
            (snd (uio_run dbg name env) \<noteq> None \<longrightarrow>
               snd (uio_run dbg name env) = Some EXIT_FAILURE \<and>
               (\<exists>x\<in>set (iters env). short_write x)) \<and>
            ((\<forall>x\<in>set (iters env). \<not> short_write x) \<longrightarrow>
               filter is_dev_io (fst (uio_run dbg name env)) =
                 concat (map (\<lambda>x. [Write_call (open_ret env) 1 (sizeof_ulong TYPE('w)),
                                     Read_call (open_ret env) (sizeof_ulong TYPE('w))])
                           (iters env))))"
proof (cases "mmap_ret env = MAP_FAILED")
  case True
  then show ?thesis by (simp add: uio_run_failed)
next
  case False
  let ?fd = "open_ret env" and ?m = "mmap_ret env"
  obtain P where run: "uio_run dbg name env =
       (P @ fst (uio_loop dbg ?fd ?m (iters env)), snd (uio_loop dbg ?fd ?m (iters env)))"
    and P: "filter is_dev_io P = []"
    using uio_run_prologue [OF False] by metis
  have order: "unmask_then_wait (filter is_dev_io (fst (uio_run dbg name env)))"
    by (simp add: run P uio_loop_unmask_then_wait)
  have st: "snd (uio_run dbg name env) =
      (if \<exists>x\<in>set (iters env). short_write x then Some EXIT_FAILURE else None)"
    by (simp add: run uio_loop_status)
  have all: "(\<forall>x\<in>set (iters env). \<not> short_write x) \<longrightarrow>
               filter is_dev_io (fst (uio_run dbg name env)) =
                 concat (map (\<lambda>x. [Write_call ?fd 1 (sizeof_ulong TYPE('w)),
                                     Read_call ?fd (sizeof_ulong TYPE('w))])
                           (iters env))"
    by (simp add: run P uio_loop_pass_dev_io)
  have none: "snd (uio_run dbg name env) = None \<longleftrightarrow> (\<forall>x\<in>set (iters env). \<not> short_write x)"
    unfolding st by simp
  have some: "snd (uio_run dbg name env) \<noteq> None \<longrightarrow>
               snd (uio_run dbg name env) = Some EXIT_FAILURE \<and>
               (\<exists>x\<in>set (iters env). short_write x)"
    unfolding st by simp
  from none some all
  have "mmap_ret env \<noteq> MAP_FAILED \<longrightarrow>
            (snd (uio_run dbg name env) = None \<longleftrightarrow> (\<forall>x\<in>set (iters env). \<not> short_write x)) \<and>
            (snd (uio_run dbg name env) \<noteq> None \<longrightarrow>
               snd (uio_run dbg name env) = Some EXIT_FAILURE \<and>
               (\<exists>x\<in>set (iters env). short_write x)) \<and>
            ((\<forall>x\<in>set (iters env). \<not> short_write x) \<longrightarrow>
               filter is_dev_io (fst (uio_run dbg name env)) =
                 concat (map (\<lambda>x. [Write_call (open_ret env) 1 (sizeof_ulong TYPE('w)),
                                     Read_call (open_ret env) (sizeof_ulong TYPE('w))])
                           (iters env)))"
    by blast
  with order show ?thesis
    by (rule conjI)
qed

theorem C8_unmask_precedes_wait_witness:
  "unmask_then_wait (filter is_dev_io (fst (uio_run False ''/dev/uio0''
      \<lparr>open_ret = 3, open_errstr = [], mmap_ret = (0x76F00000 :: 32 word),
       mmap_errstr = [], tri_val = 0, ier_val = 0,
       iters = [\<lparr>wr_ret = 4, rd_ret = 4, npending_val = 1, isr_val = 1, data_val = 1\<rparr>,
                \<lparr>wr_ret = 4, rd_ret = 4, npending_val = 0, isr_val = 0, data_val = 0\<rparr>]\<rparr>))) \<and>
   snd (uio_run False ''/dev/uio0''
      \<lparr>open_ret = 3, open_errstr = [], mmap_ret = (0x76F00000 :: 32 word),
       mmap_errstr = [], tri_val = 0, ier_val = 0,
       iters = [\<lparr>wr_ret = 4, rd_ret = 4, npending_val = 1, isr_val = 1, data_val = 1\<rparr>,
                \<lparr>wr_ret = 4, rd_ret = 4, npending_val = 0, isr_val = 0, data_val = 0\<rparr>]\<rparr>) = None \<and>
   filter is_dev_io (fst (uio_run False ''/dev/uio0''
      \<lparr>open_ret = 3, open_errstr = [], mmap_ret = (0x76F00000 :: 32 word),
       mmap_errstr = [], tri_val = 0, ier_val = 0,
       iters = [\<lparr>wr_ret = 4, rd_ret = 4, npending_val = 1, isr_val = 1, data_val = 1\<rparr>,
                \<lparr>wr_ret = 4, rd_ret = 4, npending_val = 0, isr_val = 0, data_val = 0\<rparr>]\<rparr>)) =
     [Write_call 3 1 4, Read_call 3 4, Write_call 3 1 4, Read_call 3 4]"
  using C8_unmask_precedes_wait
    [of False "''/dev/uio0''"
        "\<lparr>open_ret = 3, open_errstr = [], mmap_ret = (0x76F00000 :: 32 word),
       mmap_errstr = [], tri_val = 0, ier_val = 0,
       iters = [\<lparr>wr_ret = 4, rd_ret = 4, npending_val = 1, isr_val = 1, data_val = 1\<rparr>,
                \<lparr>wr_ret = 4, rd_ret = 4, npending_val = 0, isr_val = 0, data_val = 0\<rparr>]\<rparr>"]
  by (simp add: MAP_FAILED_def short_write_def sizeof_ulong_def)

text \<open>
  Claim C9 says that an invocation without \<open>-d\<close> that was not asked to daemonize prints
  the usage text, exits with a failure status and accesses no device. The code does not
  always do this, because \<open>daemonize\<close> has no initialiser (line 238) and is read at line
  270 also when no \<open>-D\<close> was given. With no option at all, \<open>daemonize\<close> holding a value
  other than 0 and \<open>fork\<close> returning the child's identifier, the process forks, prints
  that identifier and returns \<open>EXIT_SUCCESS\<close>; the usage text is not printed. (When
  \<open>daemonize\<close> holds 0 the program does what the claim says: see
  \<open>main_without_d_daemonize_zero\<close>.)
\<close>

theorem C9_uninitialised_daemonize_forks:
  "main False
     \<lparr>signal_err = False, opts = [], daemonize_init = 1, fork_ret = 1234,
      uio = \<lparr>open_ret = 3, open_errstr = [], mmap_ret = (0x76F00000 :: 32 word),
             mmap_errstr = [], tri_val = 0, ier_val = 0, iters = []\<rparr>\<rparr> =
     ([Signal_call SIGINT,
       Fork_call,
       Stdout_printf ''UIO test daemon starting with PID: %d\<newline>'' [Int_arg 1234]],
      Some EXIT_SUCCESS) \<and>
   usage \<notin> set (fst (main False
     \<lparr>signal_err = False, opts = [], daemonize_init = 1, fork_ret = 1234,
      uio = \<lparr>open_ret = 3, open_errstr = [], mmap_ret = (0x76F00000 :: 32 word),
             mmap_errstr = [], tri_val = 0, ier_val = 0, iters = []\<rparr>\<rparr>))"
  by (simp add: main_def Let_def usage_def)

text \<open>
  Claim C10. When the unmask \<open>write\<close> of some pass returns \<open>-1\<close>, the value stored in the
  unsigned \<open>nb\<close> is the largest word, the test \<open>nb < sizeof(en)\<close> fails, and the run is the
  same as the run in which that \<open>write\<close> had returned the full count: the \<open>read\<close> follows
  the \<open>write\<close>, nothing is released in that pass, and the loop goes on with the
  remaining passes.
\<close>

theorem C10_unmask_error_return_not_detected:
  fixes env :: "'w::len word uio_env"
  assumes "mmap_ret env \<noteq> MAP_FAILED"
    and "iters env = pre @ io # post"
    and "\<forall>x\<in>set pre. \<not> short_write x"
    and "wr_ret io = - 1"
  shows "sint (wr_ret io) = - 1 \<and>
         \<not> short_write io \<and>
         uio_run dbg name env =
           uio_run dbg name
             (env\<lparr>iters := pre @ io\<lparr>wr_ret := of_nat (sizeof_ulong TYPE('w))\<rparr> # post\<rparr>) \<and>
         (\<exists>before after.
            fst (uio_run dbg name env) =
              before @
              [Write_call (open_ret env) 1 (sizeof_ulong TYPE('w)),
               Read_call (open_ret env) (sizeof_ulong TYPE('w))] @
              after @ fst (uio_loop dbg (open_ret env) (mmap_ret env) post) \<and>
            length (filter is_unmask before) = length pre \<and>
            filter is_teardown (before @ after) = []) \<and>
         snd (uio_run dbg name env) = snd (uio_loop dbg (open_ret env) (mmap_ret env) post)"
proof -
  let ?fd = "open_ret env" and ?m = "mmap_ret env"
  let ?io' = "io\<lparr>wr_ret := of_nat (sizeof_ulong TYPE('w))\<rparr>"
  let ?env' = "env\<lparr>iters := pre @ ?io' # post\<rparr>"
  let ?after = "if npending_val io \<noteq> 0 then
         [Stdout_printf ''Interrupt was detected %lu\<newline>'' [ULong_arg (npending_val io)],
          Reg_read ?m AXI_GPIO_IPISR_OFFSET (isr_val io)] @
         (if isr_val io \<noteq> 0 then [Reg_write ?m AXI_GPIO_IPISR_OFFSET (isr_val io)] else []) @
         [Reg_read ?m AXI_GPIO_DATA_OFFSET (data_val io)] @
         DEBUG_PRINT dbg 221 ''uio_run'' ''GPIO_DATA: 0x%lx'' [ULong_arg (data_val io)]
       else []"
  have pass: "\<not> short_write io"
    using assms(4) by (rule minus_one_not_short)
  have pass': "\<not> short_write ?io'"
    by (simp add: short_write_def)
  have same: "uio_loop dbg ?fd ?m (io # post) = uio_loop dbg ?fd ?m (?io' # post)"
    by (simp add: uio_loop_Cons_pass [OF pass] uio_loop_Cons_pass [OF pass'] del: uio_loop.simps(2))
  have loops: "uio_loop dbg ?fd ?m (iters env) = uio_loop dbg ?fd ?m (iters ?env')"
    by (simp add: assms(2) uio_loop_append [OF assms(3)] same del: uio_loop.simps(2))
  have eq: "uio_run dbg name env = uio_run dbg name ?env'"
    using assms(1) loops by (simp add: uio_run_mapped)
  have loop: "uio_loop dbg ?fd ?m (iters env) =
      (fst (uio_loop dbg ?fd ?m pre) @
       [Write_call ?fd 1 (sizeof_ulong TYPE('w)), Read_call ?fd (sizeof_ulong TYPE('w))] @
       ?after @ fst (uio_loop dbg ?fd ?m post),
       snd (uio_loop dbg ?fd ?m post))"
    unfolding assms(2)
    by (simp add: uio_loop_append [OF assms(3)] uio_loop_Cons_pass [OF pass] del: uio_loop.simps(2))
  obtain P where run: "uio_run dbg name env =
       (P @ fst (uio_loop dbg ?fd ?m (iters env)), snd (uio_loop dbg ?fd ?m (iters env)))"
    and P: "filter is_unmask P = []" "filter is_teardown P = []"
    using uio_run_prologue [OF assms(1)] by metis
  have "fst (uio_run dbg name env) =
      (P @ fst (uio_loop dbg ?fd ?m pre)) @
       [Write_call ?fd 1 (sizeof_ulong TYPE('w)), Read_call ?fd (sizeof_ulong TYPE('w))] @
       ?after @ fst (uio_loop dbg ?fd ?m post)"
    by (simp add: run loop)
  moreover have "length (filter is_unmask (P @ fst (uio_loop dbg ?fd ?m pre))) = length pre"
    using assms(3) by (simp add: P uio_loop_pass_unmask)
  moreover have "filter is_teardown ((P @ fst (uio_loop dbg ?fd ?m pre)) @ ?after) = []"
    using assms(3) by (simp add: P uio_loop_pass_teardown)
  ultimately have tr: "\<exists>before after.
            fst (uio_run dbg name env) =
              before @
              [Write_call ?fd 1 (sizeof_ulong TYPE('w)), Read_call ?fd (sizeof_ulong TYPE('w))] @
              after @ fst (uio_loop dbg ?fd ?m post) \<and>
            length (filter is_unmask before) = length pre \<and>
            filter is_teardown (before @ after) = []"
    by blast
  have st: "snd (uio_run dbg name env) = snd (uio_loop dbg ?fd ?m post)"
    by (simp add: run loop)
  have "sint (wr_ret io) = - 1"
    by (simp add: assms(4))
  with pass eq tr st show ?thesis by blast
qed

theorem C10_unmask_error_return_not_detected_witness:
  "\<not> short_write \<lparr>wr_ret = (- 1 :: 32 word), rd_ret = 4, npending_val = 0, isr_val = 0, data_val = 0\<rparr> \<and>
   uio_run False ''/dev/uio0''
     \<lparr>open_ret = 3, open_errstr = [], mmap_ret = (0x76F00000 :: 32 word),
      mmap_errstr = [], tri_val = 0, ier_val = 0,
      iters = [\<lparr>wr_ret = - 1, rd_ret = 4, npending_val = 0, isr_val = 0, data_val = 0\<rparr>]\<rparr> =
   uio_run False ''/dev/uio0''
     \<lparr>open_ret = 3, open_errstr = [], mmap_ret = (0x76F00000 :: 32 word),
      mmap_errstr = [], tri_val = 0, ier_val = 0,
      iters = [\<lparr>wr_ret = 4, rd_ret = 4, npending_val = 0, isr_val = 0, data_val = 0\<rparr>]\<rparr>"
proof -
  have mapped: "mmap_ret \<lparr>open_ret = 3, open_errstr = [], mmap_ret = (0x76F00000 :: 32 word),
      mmap_errstr = [], tri_val = 0, ier_val = 0,
      iters = [\<lparr>wr_ret = - 1, rd_ret = 4, npending_val = 0, isr_val = 0, data_val = 0\<rparr>]\<rparr>
      \<noteq> MAP_FAILED"
    by (simp add: MAP_FAILED_def)
  have "\<forall>x\<in>set ([] :: 32 word iter_io list). \<not> short_write x"
    by simp
  from C10_unmask_error_return_not_detected
    [OF mapped _ this, of "\<lparr>wr_ret = - 1, rd_ret = 4, npending_val = 0, isr_val = 0, data_val = 0\<rparr>" "[]"
       False "''/dev/uio0''"]
  show ?thesis
    by (simp add: sizeof_ulong_def)
qed

end
